theory Spec2Isabelle
  imports Complex_Main "HOL-Library.AList"
begin

section \<open>JavaScript values\<close>

text \<open>
  The handlers of \<^verbatim>\<open>src/app/api/memory/route.ts\<close> work on untyped values: the parsed
  request body, the session and the SDK's responses. A value is a JSON value or
  \<^verbatim>\<open>undefined\<close>. An object is the list of its own properties in insertion order. An
  array carries its elements and the named properties assigned to it afterwards (none
  after \<^verbatim>\<open>JSON.parse\<close>). A string is the sequence of its code units. The handlers never
  compute with numbers; they only test them for zero.
\<close>

datatype jsval =
    JUndefined
  | JNull
  | JBool bool
  | JNum real
  | JStr string
  | JArr "jsval list" "(string \<times> jsval) list"
  | JObj "(string \<times> jsval) list"

datatype exn =
    Error string
  | TypeError string
  | SyntaxError string

text \<open>\<^verbatim>\<open>!v\<close> is \<open>\<not> truthy v\<close>.\<close>

fun truthy :: "jsval \<Rightarrow> bool" where
  "truthy JUndefined = False"
| "truthy JNull = False"
| "truthy (JBool b) = b"
| "truthy (JNum n) = (n \<noteq> 0)"
| "truthy (JStr s) = (s \<noteq> [])"
| "truthy (JArr xs ps) = True"
| "truthy (JObj ps) = True"

text \<open>\<^verbatim>\<open>a || b\<close>\<close>

definition js_or :: "jsval \<Rightarrow> jsval \<Rightarrow> jsval" where
  "js_or a b = (if truthy a then a else b)"

text \<open>A destructuring default \<^verbatim>\<open>{ x = d }\<close> applies to \<^verbatim>\<open>undefined\<close> only.\<close>

definition default_to :: "jsval \<Rightarrow> jsval \<Rightarrow> jsval" where
  "default_to v d = (if v = JUndefined then d else v)"

text \<open>The decimal name of an array index.\<close>

fun digit_char :: "nat \<Rightarrow> char" where
  "digit_char n = char_of (48 + n)"

function index_name :: "nat \<Rightarrow> string" where
  "index_name n = (if n < 10 then [digit_char n] else index_name (n div 10) @ [digit_char (n mod 10)])"
  by pat_completeness auto
termination
  by (relation "measure (\<lambda>n. n)") auto

fun index_props :: "nat \<Rightarrow> jsval list \<Rightarrow> (string \<times> jsval) list" where
  "index_props i [] = []"
| "index_props i (x # xs) = (index_name i, x) # index_props (Suc i) xs"

text \<open>
  The own enumerable properties of a value, which is what an object spread
  \<^verbatim>\<open>{ ...v }\<close> copies: the properties of an object, the indices of an array or a string,
  nothing for the other primitives, \<^verbatim>\<open>null\<close> and \<^verbatim>\<open>undefined\<close>.
\<close>

fun own_props :: "jsval \<Rightarrow> (string \<times> jsval) list" where
  "own_props (JObj ps) = ps"
| "own_props (JArr xs ps) = index_props 0 xs @ ps"
| "own_props (JStr s) = index_props 0 (map (\<lambda>c. JStr [c]) s)"
| "own_props v = []"

text \<open>
  The value of \<^verbatim>\<open>v.k\<close>: an own property, the \<^verbatim>\<open>length\<close> of a string or an array, and
  otherwise \<^verbatim>\<open>undefined\<close>. The other inherited properties (the methods of the
  prototypes) have names that the handlers never read. On \<^verbatim>\<open>null\<close> and \<^verbatim>\<open>undefined\<close>
  the read throws, which is \<open>get_prop\<close> below; \<open>lookup\<close> is \<^verbatim>\<open>undefined\<close> there and
  is used where the code has already excluded them.
\<close>

definition lookup :: "jsval \<Rightarrow> string \<Rightarrow> jsval" where
  "lookup v k =
     (case map_of (own_props v) k of
        Some x \<Rightarrow> x
      | None \<Rightarrow>
          (if k = ''length'' then
             (case v of
                JStr s \<Rightarrow> JNum (of_nat (length s))
              | JArr xs ps \<Rightarrow> JNum (of_nat (length xs))
              | _ \<Rightarrow> JUndefined)
           else JUndefined))"

section \<open>Computations: a trace of effects and a result or an exception\<close>

record papr_config =
  xAPIKey :: string
  baseURL :: string

text \<open>
  What a handler does besides answering: console output, the construction of the SDK
  client and the four SDK operations with their arguments.
\<close>

datatype event =
    Console_log string jsval
  | Console_error string exn
  | New_Papr papr_config
  | Memory_add papr_config jsval
  | Memory_search papr_config jsval jsval
  | Memory_delete papr_config jsval
  | Memory_update papr_config jsval jsval

type_synonym 'a comp = "event list \<times> (exn + 'a)"

definition ret :: "'a \<Rightarrow> 'a comp" where
  "ret x = ([], Inr x)"

definition throw :: "exn \<Rightarrow> 'a comp" where
  "throw e = ([], Inl e)"

definition emit :: "event \<Rightarrow> unit comp" where
  "emit ev = ([ev], Inr ())"

text \<open>The outcome of an awaited call of a collaborator: it resolves or it rejects.\<close>

definition await :: "exn + 'a \<Rightarrow> 'a comp" where
  "await r = ([], r)"

definition bind :: "'a comp \<Rightarrow> ('a \<Rightarrow> 'b comp) \<Rightarrow> 'b comp" where
  "bind m f =
     (case m of
        (t, Inl e) \<Rightarrow> (t, Inl e)
      | (t, Inr x) \<Rightarrow> (case f x of (t', r) \<Rightarrow> (t @ t', r)))"

text \<open>\<^verbatim>\<open>try { m } catch (error) { h error }\<close>\<close>

definition try_catch :: "'a comp \<Rightarrow> (exn \<Rightarrow> 'a comp) \<Rightarrow> 'a comp" where
  "try_catch m h =
     (case m of
        (t, Inl e) \<Rightarrow> (case h e of (t', r) \<Rightarrow> (t @ t', r))
      | (t, Inr x) \<Rightarrow> (t, Inr x))"

text \<open>
  \<^verbatim>\<open>v.k\<close> throws on \<^verbatim>\<open>null\<close> and \<^verbatim>\<open>undefined\<close>; so does destructuring them.
\<close>

definition nullish :: "jsval \<Rightarrow> bool" where
  "nullish v = (v = JUndefined \<or> v = JNull)"

definition get_prop :: "jsval \<Rightarrow> string \<Rightarrow> jsval comp" where
  "get_prop v k =
     (if nullish v then throw (TypeError ''Cannot read properties of null or undefined'')
      else ret (lookup v k))"

text \<open>
  \<^verbatim>\<open>v.k = x\<close> for a name \<^verbatim>\<open>k\<close> that is not an index. The route is an ES module, hence
  strict code, where the assignment to a property of a primitive throws.
\<close>

fun set_prop :: "jsval \<Rightarrow> string \<Rightarrow> jsval \<Rightarrow> jsval comp" where
  "set_prop (JObj ps) k x = ret (JObj (AList.update k x ps))"
| "set_prop (JArr xs ps) k x = ret (JArr xs (AList.update k x ps))"
| "set_prop JUndefined k x = throw (TypeError ''Cannot set properties of undefined'')"
| "set_prop JNull k x = throw (TypeError ''Cannot set properties of null'')"
| "set_prop v k x = throw (TypeError ''Cannot create property on a primitive'')"

section \<open>The memory route\<close>

record env =
  PAPR_MEMORY_API_KEY :: "string option"
  PAPR_MEMORY_API_URL :: "string option"

text \<open>
  The SDK is a collaborator: each operation, given the client and its arguments,
  resolves with a value or rejects.
\<close>

record papr_sdk =
  memory_add :: "papr_config \<Rightarrow> jsval \<Rightarrow> exn + jsval"
  memory_search :: "papr_config \<Rightarrow> jsval \<Rightarrow> jsval \<Rightarrow> exn + jsval"
  memory_delete :: "papr_config \<Rightarrow> jsval \<Rightarrow> exn + jsval"
  memory_update :: "papr_config \<Rightarrow> jsval \<Rightarrow> jsval \<Rightarrow> exn + jsval"

text \<open>
  What surrounds a handler: the process environment, the outcome of \<^verbatim>\<open>auth()\<close>, the value
  of \<^verbatim>\<open>new Date().toISOString()\<close> and the SDK.
\<close>

record runtime =
  process_env :: env
  auth :: "exn + jsval"
  date_now_iso :: string
  papr :: papr_sdk

text \<open>
  A request: the query parameters of its URL in order, and the outcome of
  \<^verbatim>\<open>request.json()\<close>, which rejects when the body is not JSON.
\<close>

record request =
  searchParams :: "(string \<times> string) list"
  json :: "exn + jsval"

record response =
  status :: nat
  body :: jsval

text \<open>\<^verbatim>\<open>NextResponse.json(b, { status: s })\<close>; the status is 200 when none is given.\<close>

definition NextResponse_json :: "jsval \<Rightarrow> nat \<Rightarrow> response" where
  "NextResponse_json b s = \<lparr>status = s, body = b\<rparr>"

text \<open>\<^verbatim>\<open>s.replace(pat, rep)\<close> with a string pattern replaces the first occurrence.\<close>

fun replace_first :: "string \<Rightarrow> string \<Rightarrow> string \<Rightarrow> string" where
  "replace_first pat rep [] = (if pat = [] then rep else [])"
| "replace_first pat rep (c # cs) =
     (if take (length pat) (c # cs) = pat then rep @ drop (length pat) (c # cs)
      else c # replace_first pat rep cs)"

definition startsWith :: "string \<Rightarrow> string \<Rightarrow> bool" where
  "startsWith s p = (take (length p) s = p)"

text \<open>
  \<^verbatim>\<open>v || d\<close> for an environment variable, which is a string or \<^verbatim>\<open>undefined\<close>; the
  empty string is falsy.
\<close>

definition env_or :: "string option \<Rightarrow> string \<Rightarrow> string" where
  "env_or v d = (case v of None \<Rightarrow> d | Some s \<Rightarrow> if s = [] then d else s)"

definition getPaprClient :: "env \<Rightarrow> papr_config comp" where
  "getPaprClient e =
     (case PAPR_MEMORY_API_KEY e of
        None \<Rightarrow> throw (Error ''PAPR_MEMORY_API_KEY is not defined'')
      | Some apiKey \<Rightarrow>
          if apiKey = [] then throw (Error ''PAPR_MEMORY_API_KEY is not defined'')
          else
            let baseURL = env_or (PAPR_MEMORY_API_URL e) ''https://memory.papr.ai'';
                secureBaseURL = (if startsWith baseURL ''https://'' then baseURL
                                 else ''https://'' @ replace_first ''http://'' [] baseURL);
                client = \<lparr>xAPIKey = apiKey, baseURL = secureBaseURL\<rparr>
            in bind (emit (New_Papr client)) (\<lambda>_. ret client))"

text \<open>\<^verbatim>\<open>!session || !session.user || !session.user.id\<close>\<close>

definition no_session :: "jsval \<Rightarrow> bool" where
  "no_session session =
     (\<not> truthy session \<or> \<not> truthy (lookup session ''user'')
      \<or> \<not> truthy (lookup (lookup session ''user'') ''id''))"

definition session_user_id :: "jsval \<Rightarrow> jsval" where
  "session_user_id session = lookup (lookup session ''user'') ''id''"

definition error_body :: "string \<Rightarrow> jsval" where
  "error_body msg = JObj [(''error'', JStr msg)]"

text \<open>
  Lines 43 to 64: the metadata of the memory. Here \<^verbatim>\<open>metadata\<close> is neither \<^verbatim>\<open>null\<close> nor
  \<^verbatim>\<open>undefined\<close> (line 38 has read a property of it), so no read throws.
\<close>

definition memoryMetadata_of :: "jsval \<Rightarrow> string \<Rightarrow> jsval \<Rightarrow> jsval" where
  "memoryMetadata_of session now metadata =
     JObj
       [(''sourceType'', js_or (lookup metadata ''sourceType'') (JStr ''PaprChat'')),
        (''user_id'', session_user_id session),
        (''external_user_id'', session_user_id session),
        (''createdAt'', js_or (lookup metadata ''createdAt'') (JStr now)),
        (''sourceUrl'', lookup metadata ''sourceUrl''),
        (''conversationId'', lookup metadata ''conversationId''),
        (''topics'', js_or (lookup metadata ''topics'') (JArr [] [])),
        (''emoji tags'', js_or (lookup metadata ''emoji tags'') (JArr [] [])),
        (''hierarchical_structures'', lookup metadata ''hierarchical_structures''),
        (''workspace_id'', lookup metadata ''workspace_id''),
        (''customMetadata'',
           JObj (AList.update ''app_user_id'' (session_user_id session)
                  (AList.update ''api_source'' (JStr ''memory_route'')
                    (own_props (lookup metadata ''customMetadata'')))))]"

definition add_log :: "jsval \<Rightarrow> jsval \<Rightarrow> jsval \<Rightarrow> jsval" where
  "add_log type content memoryMetadata =
     JObj
       [(''type'', type),
        (''contentLength'', lookup content ''length''),
        (''metadata'',
           JObj
             [(''sourceType'', lookup memoryMetadata ''sourceType''),
              (''createdAt'', lookup memoryMetadata ''createdAt''),
              (''topics'', lookup memoryMetadata ''topics''),
              (''hierarchical_structures'', lookup memoryMetadata ''hierarchical_structures''),
              (''customMetadata'', lookup memoryMetadata ''customMetadata'')])]"

text \<open>
  Lines 38 to 40: \<^verbatim>\<open>if (!metadata.customMetadata) { metadata.customMetadata = {}; }\<close>. The
  read throws when \<^verbatim>\<open>metadata\<close> is \<^verbatim>\<open>null\<close>, the assignment when it is a primitive.
\<close>

definition ensure_customMetadata :: "jsval \<Rightarrow> jsval comp" where
  "ensure_customMetadata metadata =
     bind (get_prop metadata ''customMetadata'') (\<lambda>custom.
     if \<not> truthy custom then set_prop metadata ''customMetadata'' (JObj [])
     else ret metadata)"

definition POST_try :: "runtime \<Rightarrow> request \<Rightarrow> response comp" where
  "POST_try rt req =
     bind (await (auth rt)) (\<lambda>session.
     if no_session session then ret (NextResponse_json (error_body ''Unauthorized'') 401)
     else
       bind (await (json req)) (\<lambda>parsed.
       bind (get_prop parsed ''content'') (\<lambda>content.
       bind (get_prop parsed ''type'') (\<lambda>type0.
       bind (get_prop parsed ''metadata'') (\<lambda>metadata0.
       let type = default_to type0 (JStr ''text'');
           metadata = default_to metadata0 (JObj [])
       in
       if \<not> truthy content then ret (NextResponse_json (error_body ''Content is required'') 400)
       else
         bind (getPaprClient (process_env rt)) (\<lambda>client.
         bind (ensure_customMetadata metadata) (\<lambda>metadata.
         let memoryMetadata = memoryMetadata_of session (date_now_iso rt) metadata;
             memoryParams = JObj [(''content'', content), (''type'', type),
                                  (''metadata'', memoryMetadata)]
         in
         bind (emit (Console_log ''[Memory API] Adding memory:''
                       (add_log type content memoryMetadata))) (\<lambda>_.
         bind (emit (Memory_add client memoryParams)) (\<lambda>_.
         bind (await (memory_add (papr rt) client memoryParams)) (\<lambda>response.
         bind (get_prop response ''data'') (\<lambda>data.
         ret (NextResponse_json (JObj [(''success'', JBool True), (''data'', data)]) 200))))))))))))"

definition POST :: "runtime \<Rightarrow> request \<Rightarrow> response comp" where
  "POST rt req =
     try_catch (POST_try rt req) (\<lambda>error.
       bind (emit (Console_error ''Error adding memory:'' error)) (\<lambda>_.
       ret (NextResponse_json (error_body ''Failed to add memory'') 500)))"

text \<open>
  \<^verbatim>\<open>url.searchParams.get(k)\<close>: the value of the first parameter named \<^verbatim>\<open>k\<close>, or \<^verbatim>\<open>null\<close>.
\<close>

definition searchParams_get :: "request \<Rightarrow> string \<Rightarrow> jsval" where
  "searchParams_get req k = (case map_of (searchParams req) k of None \<Rightarrow> JNull | Some v \<Rightarrow> JStr v)"

definition GET_try :: "runtime \<Rightarrow> request \<Rightarrow> response comp" where
  "GET_try rt req =
     bind (await (auth rt)) (\<lambda>session.
     if no_session session then ret (NextResponse_json (error_body ''Unauthorized'') 401)
     else
       let query = searchParams_get req ''query'';
           maxMemories = js_or (searchParams_get req ''max_memories'') (JStr ''25'')
       in
       if \<not> truthy query then
         ret (NextResponse_json (error_body ''Query parameter is required'') 400)
       else
         bind (getPaprClient (process_env rt)) (\<lambda>client.
         let searchParams = JObj [(''query'', query), (''user_id'', session_user_id session)];
             options = JObj [(''query'', JObj [(''max_memories'', JNum 25)])]
         in
         bind (emit (Memory_search client searchParams options)) (\<lambda>_.
         bind (await (memory_search (papr rt) client searchParams options)) (\<lambda>response.
         bind (get_prop response ''data'') (\<lambda>data.
         ret (NextResponse_json (JObj [(''success'', JBool True), (''data'', data)]) 200))))))"

definition GET :: "runtime \<Rightarrow> request \<Rightarrow> response comp" where
  "GET rt req =
     try_catch (GET_try rt req) (\<lambda>error.
       bind (emit (Console_error ''Error searching memories:'' error)) (\<lambda>_.
       ret (NextResponse_json (error_body ''Failed to search memories'') 500)))"

definition DELETE_try :: "runtime \<Rightarrow> request \<Rightarrow> response comp" where
  "DELETE_try rt req =
     bind (await (auth rt)) (\<lambda>session.
     if no_session session then ret (NextResponse_json (error_body ''Unauthorized'') 401)
     else
       let memoryId = searchParams_get req ''id'' in
       if \<not> truthy memoryId then
         ret (NextResponse_json (error_body ''Memory ID is required'') 400)
       else
         bind (getPaprClient (process_env rt)) (\<lambda>client.
         bind (emit (Memory_delete client memoryId)) (\<lambda>_.
         bind (await (memory_delete (papr rt) client memoryId)) (\<lambda>response.
         ret (NextResponse_json (JObj [(''success'', JBool True), (''data'', response)]) 200)))))"

definition DELETE :: "runtime \<Rightarrow> request \<Rightarrow> response comp" where
  "DELETE rt req =
     try_catch (DELETE_try rt req) (\<lambda>error.
       bind (emit (Console_error ''Error deleting memory:'' error)) (\<lambda>_.
       ret (NextResponse_json (error_body ''Failed to delete memory'') 500)))"

definition PUT_try :: "runtime \<Rightarrow> request \<Rightarrow> response comp" where
  "PUT_try rt req =
     bind (await (auth rt)) (\<lambda>session.
     if no_session session then ret (NextResponse_json (error_body ''Unauthorized'') 401)
     else
       bind (await (json req)) (\<lambda>parsed.
       bind (get_prop parsed ''memory_id'') (\<lambda>memory_id.
       bind (get_prop parsed ''content'') (\<lambda>content.
       bind (get_prop parsed ''metadata'') (\<lambda>metadata.
       bind (get_prop parsed ''type'') (\<lambda>type.
       if \<not> truthy memory_id then
         ret (NextResponse_json (error_body ''Memory ID is required'') 400)
       else
         bind (getPaprClient (process_env rt)) (\<lambda>client.
         let params = JObj [(''content'', content), (''metadata'', metadata), (''type'', type)]
         in
         bind (emit (Memory_update client memory_id params)) (\<lambda>_.
         bind (await (memory_update (papr rt) client memory_id params)) (\<lambda>response.
         ret (NextResponse_json (JObj [(''success'', JBool True), (''data'', response)]) 200))))))))))"

definition PUT :: "runtime \<Rightarrow> request \<Rightarrow> response comp" where
  "PUT rt req =
     try_catch (PUT_try rt req) (\<lambda>error.
       bind (emit (Console_error ''Error updating memory:'' error)) (\<lambda>_.
       ret (NextResponse_json (error_body ''Failed to update memory'') 500)))"

section \<open>The image artifact's copy action\<close>

text \<open>
  The third action of \<^verbatim>\<open>imageArtifact\<close> (\<^verbatim>\<open>src/lib/types.ts\<close>, lines 74 to 98). Its
  \<^verbatim>\<open>onClick\<close> creates an image, sets its source, registers \<^verbatim>\<open>img.onload\<close> and calls
  \<^verbatim>\<open>toast.success\<close>. The browser decides the rest: whether the image loads (and with which
  size), whether the canvas has a 2d context, and which blob, if any, \<^verbatim>\<open>canvas.toBlob\<close>
  hands to its callback.
\<close>

datatype ui_event =
    New_Image
  | Set_src string
  | Set_onload
  | Toast_success string
  | Create_canvas
  | Set_canvas_size nat nat
  | Draw_image
  | To_blob string
  | Clipboard_write string

record browser =
  image_loads :: "(nat \<times> nat) option"
  context_2d :: bool
  blob :: "string option"

text \<open>The statements of \<^verbatim>\<open>onClick\<close>, in order.\<close>

definition onClick :: "string \<Rightarrow> ui_event list" where
  "onClick content =
     [New_Image,
      Set_src (''data:image/png;base64,'' @ content),
      Set_onload,
      Toast_success ''Copied image to clipboard!'']"

text \<open>The callback given to \<^verbatim>\<open>canvas.toBlob\<close>: \<^verbatim>\<open>if (blob) { navigator.clipboard.write(...) }\<close>.\<close>

definition toBlob_callback :: "string option \<Rightarrow> ui_event list" where
  "toBlob_callback b = (case b of None \<Rightarrow> [] | Some png \<Rightarrow> [Clipboard_write png])"

text \<open>The body of \<^verbatim>\<open>img.onload\<close>; \<^verbatim>\<open>ctx?.drawImage\<close> draws when there is a context.\<close>

definition img_onload :: "browser \<Rightarrow> nat \<times> nat \<Rightarrow> ui_event list" where
  "img_onload b dims =
     [Create_canvas, Set_canvas_size (fst dims) (snd dims)]
     @ (if context_2d b then [Draw_image] else [])
     @ [To_blob ''image/png'']"

text \<open>
  One click, run to the end. A callback runs as a task of its own after the task that
  registered it has returned: \<^verbatim>\<open>onClick\<close> first, then \<^verbatim>\<open>img.onload\<close> if the image
  loads, then the callback of \<^verbatim>\<open>toBlob\<close>.
\<close>

definition copy_action :: "browser \<Rightarrow> string \<Rightarrow> ui_event list" where
  "copy_action b content =
     onClick content
     @ (case image_loads b of
          None \<Rightarrow> []
        | Some dims \<Rightarrow> img_onload b dims @ toBlob_callback (blob b))"

section \<open>Sample inputs\<close>

definition alice :: jsval where
  "alice = JObj [(''user'', JObj [(''id'', JStr ''alice'')])]"

text \<open>A session whose user has no id.\<close>

definition anonymous_user :: jsval where
  "anonymous_user = JObj [(''user'', JObj [(''name'', JStr ''alice'')])]"

definition rejecting_sdk :: papr_sdk where
  "rejecting_sdk =
     \<lparr>memory_add = (\<lambda>c p. Inl (Error ''429 quota exceeded'')),
      memory_search = (\<lambda>c p opts. Inl (Error ''429 quota exceeded'')),
      memory_delete = (\<lambda>c i. Inl (Error ''404 no such memory'')),
      memory_update = (\<lambda>c i p. Inl (Error ''404 no such memory''))\<rparr>"

definition accepting_sdk :: papr_sdk where
  "accepting_sdk =
     \<lparr>memory_add = (\<lambda>c p. Inr (JObj [(''data'', JArr [] [])])),
      memory_search = (\<lambda>c p opts. Inr (JObj [(''data'', JObj [(''memories'', JArr [] [])])])),
      memory_delete = (\<lambda>c i. Inr (JObj [(''status'', JStr ''success'')])),
      memory_update = (\<lambda>c i p. Inr (JObj [(''status'', JStr ''success'')]))\<rparr>"

definition configured :: env where
  "configured = \<lparr>PAPR_MEMORY_API_KEY = Some ''sk-1'', PAPR_MEMORY_API_URL = None\<rparr>"

definition unconfigured :: env where
  "unconfigured = \<lparr>PAPR_MEMORY_API_KEY = None, PAPR_MEMORY_API_URL = None\<rparr>"

definition sample_runtime :: "env \<Rightarrow> jsval \<Rightarrow> papr_sdk \<Rightarrow> runtime" where
  "sample_runtime e session sdk =
     \<lparr>process_env = e, auth = Inr session, date_now_iso = ''2025-01-01T00:00:00.000Z'',
      papr = sdk\<rparr>"

definition sample_client :: papr_config where
  "sample_client = \<lparr>xAPIKey = ''sk-1'', baseURL = ''https://memory.papr.ai''\<rparr>"

text \<open>A Create request that tries to pass for another user.\<close>

definition spoofing_request :: request where
  "spoofing_request =
     \<lparr>searchParams = [],
      json = Inr (JObj
        [(''content'', JStr ''hello''),
         (''metadata'', JObj
            [(''user_id'', JStr ''mallory''),
             (''external_user_id'', JStr ''mallory''),
             (''topics'', JArr [JStr ''a'', JStr ''b''] []),
             (''customMetadata'', JObj [(''api_source'', JStr ''elsewhere'')])])])\<rparr>"

definition hello_request :: request where
  "hello_request = \<lparr>searchParams = [], json = Inr (JObj [(''content'', JStr ''hello'')])\<rparr>"

definition search_request :: request where
  "search_request =
     \<lparr>searchParams = [(''query'', ''tea''), (''max_memories'', ''3'')], json = Inl (SyntaxError ''no body'')\<rparr>"

definition delete_request :: request where
  "delete_request = \<lparr>searchParams = [(''id'', ''m1'')], json = Inl (SyntaxError ''no body'')\<rparr>"

definition update_request :: request where
  "update_request =
     \<lparr>searchParams = [],
      json = Inr (JObj [(''memory_id'', JStr ''m1''), (''content'', JStr ''bye'')])\<rparr>"

definition empty_request :: request where
  "empty_request = \<lparr>searchParams = [], json = Inr (JObj [])\<rparr>"

text \<open>A request whose body is the JSON literal \<^verbatim>\<open>null\<close>.\<close>

definition null_request :: request where
  "null_request = \<lparr>searchParams = [], json = Inr JNull\<rparr>"

definition garbled_request :: request where
  "garbled_request = \<lparr>searchParams = [], json = Inl (SyntaxError ''Unexpected token'')\<rparr>"

text \<open>What the handlers hand to the SDK for the sample requests.\<close>

definition spoofed_params :: jsval where
  "spoofed_params =
     JObj
      [(''content'', JStr ''hello''), (''type'', JStr ''text''),
       (''metadata'',
        JObj
         [(''sourceType'', JStr ''PaprChat''),
          (''user_id'', JStr ''alice''),
          (''external_user_id'', JStr ''alice''),
          (''createdAt'', JStr ''2025-01-01T00:00:00.000Z''),
          (''sourceUrl'', JUndefined), (''conversationId'', JUndefined),
          (''topics'', JArr [JStr ''a'', JStr ''b''] []),
          (''emoji tags'', JArr [] []),
          (''hierarchical_structures'', JUndefined),
          (''workspace_id'', JUndefined),
          (''customMetadata'',
           JObj
            [(''api_source'', JStr ''memory_route''),
             (''app_user_id'', JStr ''alice'')])])]"

definition hello_params :: jsval where
  "hello_params =
     JObj
      [(''content'', JStr ''hello''), (''type'', JStr ''text''),
       (''metadata'',
        JObj
         [(''sourceType'', JStr ''PaprChat''),
          (''user_id'', JStr ''alice''),
          (''external_user_id'', JStr ''alice''),
          (''createdAt'', JStr ''2025-01-01T00:00:00.000Z''),
          (''sourceUrl'', JUndefined), (''conversationId'', JUndefined),
          (''topics'', JArr [] []), (''emoji tags'', JArr [] []),
          (''hierarchical_structures'', JUndefined),
          (''workspace_id'', JUndefined),
          (''customMetadata'',
           JObj
            [(''api_source'', JStr ''memory_route''),
             (''app_user_id'', JStr ''alice'')])])]"

definition tea_params :: jsval where
  "tea_params = JObj [(''query'', JStr ''tea''), (''user_id'', JStr ''alice'')]"

definition cap_options :: jsval where
  "cap_options = JObj [(''query'', JObj [(''max_memories'', JNum 25)])]"

definition bye_params :: jsval where
  "bye_params = JObj [(''content'', JStr ''bye''), (''metadata'', JUndefined), (''type'', JUndefined)]"

definition search_request_100 :: request where
  "search_request_100 =
     \<lparr>searchParams = [(''max_memories'', ''100''), (''query'', ''tea'')], json = Inl (SyntaxError ''no body'')\<rparr>"

definition blank_request :: request where
  "blank_request = \<lparr>searchParams = [], json = Inr (JObj [(''content'', JStr [])])\<rparr>"

text \<open>A browser in which the image does not load, and one in which \<^verbatim>\<open>toBlob\<close> yields \<^verbatim>\<open>null\<close>.\<close>

definition broken_image :: browser where
  "broken_image = \<lparr>image_loads = None, context_2d = True, blob = None\<rparr>"

definition no_blob :: browser where
  "no_blob = \<lparr>image_loads = Some (2, 3), context_2d = True, blob = None\<rparr>"

section \<open>Running computations\<close>

lemma bind_done: "bind ([], Inr x) f = f x"
  by (simp add: bind_def split: prod.splits)
lemma bind_failed: "bind (t, Inl e) f = (t, Inl e)"
  by (simp add: bind_def)
lemma bind_event: "bind (ev # t, r) f = (ev # fst (bind (t, r) f), snd (bind (t, r) f))"
  by (simp add: bind_def split: prod.splits sum.splits)
lemma try_done: "try_catch (t, Inr x) h = (t, Inr x)"
  by (simp add: try_catch_def)
lemma try_failed: "try_catch ([], Inl e) h = h e"
  by (simp add: try_catch_def split: prod.splits)
lemma try_event: "try_catch (ev # t, r) h = (ev # fst (try_catch (t, r) h), snd (try_catch (t, r) h))"
  by (simp add: try_catch_def split: prod.splits sum.splits)

lemmas run = ret_def throw_def emit_def await_def bind_done bind_failed bind_event
  try_done try_failed try_event NextResponse_json_def error_body_def

lemma bind_nil: "bind ([], r) f = (case r of Inl e \<Rightarrow> ([], Inl e) | Inr x \<Rightarrow> f x)"
  by (simp add: bind_def split: prod.splits sum.splits)
lemma try_nil: "try_catch ([], r) h = (case r of Inl e \<Rightarrow> h e | Inr x \<Rightarrow> ([], Inr x))"
  by (simp add: try_catch_def split: prod.splits sum.splits)

lemmas run_split = ret_def throw_def emit_def await_def bind_nil bind_event
  try_nil try_event NextResponse_json_def error_body_def

lemma get_prop_run:
  "get_prop v k = (if nullish v then ([], Inl (TypeError ''Cannot read properties of null or undefined'')) else ([], Inr (lookup v k)))"
  by (simp add: get_prop_def run)

lemma getPaprClient_cases:
  "getPaprClient e = ([], Inl (Error ''PAPR_MEMORY_API_KEY is not defined''))
   \<or> (\<exists>c. getPaprClient e = ([New_Papr c], Inr c))"
  by (simp add: getPaprClient_def Let_def run split: option.splits)

lemma set_prop_cases: "(\<exists>e. set_prop v k x = ([], Inl e)) \<or> (\<exists>v'. set_prop v k x = ([], Inr v'))"
  by (cases v) (simp_all add: run)

lemma set_prop_other:
  assumes "set_prop v k x = (t, Inr v')" "k' \<noteq> k"
  shows "lookup v' k' = lookup v k'"
  using assms by (cases v) (auto simp: lookup_def run update_conv' map_add_def split: option.splits)

lemma lookup_nullish: "nullish v \<Longrightarrow> lookup v k = JUndefined"
  by (auto simp: nullish_def lookup_def)

lemma lookup_default_to: "lookup (default_to v (JObj [])) k = lookup v k"
  by (simp add: default_to_def lookup_def)

lemma ensure_customMetadata_cases:
  "(\<exists>e. ensure_customMetadata m = ([], Inl e))
   \<or> (\<exists>m'. ensure_customMetadata m = ([], Inr m')
         \<and> (\<forall>k. k \<noteq> ''customMetadata'' \<longrightarrow> lookup m' k = lookup m k))"
proof (cases "nullish m")
  case True
  then show ?thesis by (simp add: ensure_customMetadata_def get_prop_run run)
next
  case False
  show ?thesis
  proof (cases "truthy (lookup m ''customMetadata'')")
    case True
    with False show ?thesis by (simp add: ensure_customMetadata_def get_prop_run run)
  next
    case no: False
    from set_prop_cases [of m "''customMetadata''" "JObj []"] show ?thesis
    proof
      assume "\<exists>e. set_prop m ''customMetadata'' (JObj []) = ([], Inl e)"
      with False no show ?thesis by (auto simp add: ensure_customMetadata_def get_prop_run run)
    next
      assume "\<exists>v'. set_prop m ''customMetadata'' (JObj []) = ([], Inr v')"
      then obtain v' where v': "set_prop m ''customMetadata'' (JObj []) = ([], Inr v')" ..
      have "\<forall>k. k \<noteq> ''customMetadata'' \<longrightarrow> lookup v' k = lookup m k"
        using set_prop_other [OF v'] by blast
      with False no v' show ?thesis by (simp add: ensure_customMetadata_def get_prop_run run)
    qed
  qed
qed

lemma POST_reaches_add:
  assumes H: "Memory_add c p \<in> set (fst (POST rt req))"
  obtains session parsed metadata where
    "auth rt = Inr session" "\<not> no_session session" "json req = Inr parsed"
    "truthy (lookup parsed ''content'')"
    "\<forall>k. k \<noteq> ''customMetadata'' \<longrightarrow> lookup metadata k = lookup (lookup parsed ''metadata'') k"
    "p = JObj [(''content'', lookup parsed ''content''),
               (''type'', default_to (lookup parsed ''type'') (JStr ''text'')),
               (''metadata'', memoryMetadata_of session (date_now_iso rt) metadata)]"
    "snd (POST rt req) =
       (case memory_add (papr rt) c p of
          Inl e \<Rightarrow> Inr \<lparr>status = 500, body = JObj [(''error'', JStr ''Failed to add memory'')]\<rparr>
        | Inr response \<Rightarrow>
            if nullish response
            then Inr \<lparr>status = 500, body = JObj [(''error'', JStr ''Failed to add memory'')]\<rparr>
            else Inr \<lparr>status = 200,
                      body = JObj [(''success'', JBool True), (''data'', lookup response ''data'')]\<rparr>)"
proof (cases "auth rt")
  case (Inl e)
  with H show ?thesis by (simp add: POST_def POST_try_def run)
next
  case auth: (Inr session)
  show ?thesis
  proof (cases "no_session session")
    case True
    with H auth show ?thesis by (simp add: POST_def POST_try_def run)
  next
    case sess: False
    show ?thesis
    proof (cases "json req")
      case (Inl e)
      with H auth sess show ?thesis by (simp add: POST_def POST_try_def run)
    next
      case parsed: (Inr parsed)
      show ?thesis
      proof (cases "nullish parsed")
        case True
        with H auth sess parsed show ?thesis
          by (simp add: POST_def POST_try_def run get_prop_run)
      next
        case notnull: False
        show ?thesis
      proof (cases "truthy (lookup parsed ''content'')")
        case False
        with H auth sess parsed notnull show ?thesis
          by (simp add: POST_def POST_try_def run get_prop_run Let_def)
      next
        case content: True
        from getPaprClient_cases [of "process_env rt"] show ?thesis
        proof
          assume "getPaprClient (process_env rt) = ([], Inl (Error ''PAPR_MEMORY_API_KEY is not defined''))"
          with H auth sess parsed notnull content show ?thesis
            by (simp add: POST_def POST_try_def run get_prop_run Let_def)
        next
          assume "\<exists>c. getPaprClient (process_env rt) = ([New_Papr c], Inr c)"
          then obtain c' where client: "getPaprClient (process_env rt) = ([New_Papr c'], Inr c')" ..
          from ensure_customMetadata_cases [of "default_to (lookup parsed ''metadata'') (JObj [])"]
          show ?thesis
          proof
            assume "\<exists>e. ensure_customMetadata (default_to (lookup parsed ''metadata'') (JObj [])) = ([], Inl e)"
            then obtain e where
              "ensure_customMetadata (default_to (lookup parsed ''metadata'') (JObj [])) = ([], Inl e)" ..
            with H auth sess parsed notnull content client show ?thesis
              by (simp add: POST_def POST_try_def run get_prop_run Let_def)
          next
            assume "\<exists>m'. ensure_customMetadata (default_to (lookup parsed ''metadata'') (JObj [])) = ([], Inr m')
               \<and> (\<forall>k. k \<noteq> ''customMetadata'' \<longrightarrow>
                     lookup m' k = lookup (default_to (lookup parsed ''metadata'') (JObj [])) k)"
            then obtain metadata where
              st: "ensure_customMetadata (default_to (lookup parsed ''metadata'') (JObj [])) = ([], Inr metadata)"
              and keep: "\<forall>k. k \<noteq> ''customMetadata'' \<longrightarrow>
                     lookup metadata k = lookup (default_to (lookup parsed ''metadata'') (JObj [])) k"
              by blast
            have other: "\<forall>k. k \<noteq> ''customMetadata'' \<longrightarrow>
                lookup metadata k = lookup (lookup parsed ''metadata'') k"
              using keep by (simp add: lookup_default_to)
            define p' where "p' = JObj [(''content'', lookup parsed ''content''),
               (''type'', default_to (lookup parsed ''type'') (JStr ''text'')),
               (''metadata'', memoryMetadata_of session (date_now_iso rt) metadata)]"
            have shape: "POST_try rt req =
               bind ([New_Papr c', Console_log ''[Memory API] Adding memory:''
                         (add_log (default_to (lookup parsed ''type'') (JStr ''text''))
                            (lookup parsed ''content'')
                            (memoryMetadata_of session (date_now_iso rt) metadata)),
                      Memory_add c' p'], memory_add (papr rt) c' p')
                 (\<lambda>response. bind (get_prop response ''data'') (\<lambda>data.
                    ret (NextResponse_json (JObj [(''success'', JBool True), (''data'', data)]) 200)))"
              using auth sess parsed notnull content client st
              by (simp add: POST_try_def run get_prop_run Let_def p'_def)
            have cp: "c = c' \<and> p = p'"
              using H unfolding POST_def shape
              by (cases "memory_add (papr rt) c' p'")
                 (auto simp: run get_prop_run split: if_splits)
            have res: "snd (POST rt req) =
               (case memory_add (papr rt) c p of
                  Inl e \<Rightarrow> Inr \<lparr>status = 500, body = JObj [(''error'', JStr ''Failed to add memory'')]\<rparr>
                | Inr response \<Rightarrow>
                    if nullish response
                    then Inr \<lparr>status = 500, body = JObj [(''error'', JStr ''Failed to add memory'')]\<rparr>
                    else Inr \<lparr>status = 200,
                      body = JObj [(''success'', JBool True), (''data'', lookup response ''data'')]\<rparr>)"
              unfolding POST_def shape using cp
              by (cases "memory_add (papr rt) c' p'")
                 (auto simp: run get_prop_run split: if_splits)
            from that [OF auth sess parsed content other _ res] cp show ?thesis
              by (simp add: p'_def)
          qed
        qed
      qed
      qed
    qed
  qed
qed


lemma GET_reaches_search:
  assumes H: "Memory_search c p opts \<in> set (fst (GET rt req))"
  obtains session where
    "auth rt = Inr session" "\<not> no_session session" "truthy (searchParams_get req ''query'')"
    "p = JObj [(''query'', searchParams_get req ''query''), (''user_id'', session_user_id session)]"
    "opts = JObj [(''query'', JObj [(''max_memories'', JNum 25)])]"
    "snd (GET rt req) =
       (case memory_search (papr rt) c p opts of
          Inl e \<Rightarrow> Inr \<lparr>status = 500, body = JObj [(''error'', JStr ''Failed to search memories'')]\<rparr>
        | Inr response \<Rightarrow>
            if nullish response
            then Inr \<lparr>status = 500, body = JObj [(''error'', JStr ''Failed to search memories'')]\<rparr>
            else Inr \<lparr>status = 200,
                      body = JObj [(''success'', JBool True), (''data'', lookup response ''data'')]\<rparr>)"
  using H getPaprClient_cases [of "process_env rt"]
  by (auto simp: GET_def GET_try_def run_split get_prop_run Let_def split: if_splits sum.splits)

lemma DELETE_reaches_delete:
  assumes H: "Memory_delete c i \<in> set (fst (DELETE rt req))"
  obtains session where
    "auth rt = Inr session" "\<not> no_session session" "truthy i"
    "i = searchParams_get req ''id''"
    "snd (DELETE rt req) =
       (case memory_delete (papr rt) c i of
          Inl e \<Rightarrow> Inr \<lparr>status = 500, body = JObj [(''error'', JStr ''Failed to delete memory'')]\<rparr>
        | Inr response \<Rightarrow>
            Inr \<lparr>status = 200, body = JObj [(''success'', JBool True), (''data'', response)]\<rparr>)"
  using H getPaprClient_cases [of "process_env rt"]
  by (auto simp: DELETE_def DELETE_try_def run_split Let_def split: if_splits sum.splits)

lemma PUT_reaches_update:
  assumes H: "Memory_update c i p \<in> set (fst (PUT rt req))"
  obtains session parsed where
    "auth rt = Inr session" "\<not> no_session session" "json req = Inr parsed"
    "truthy i" "i = lookup parsed ''memory_id''"
    "p = JObj [(''content'', lookup parsed ''content''), (''metadata'', lookup parsed ''metadata''),
               (''type'', lookup parsed ''type'')]"
    "snd (PUT rt req) =
       (case memory_update (papr rt) c i p of
          Inl e \<Rightarrow> Inr \<lparr>status = 500, body = JObj [(''error'', JStr ''Failed to update memory'')]\<rparr>
        | Inr response \<Rightarrow>
            Inr \<lparr>status = 200, body = JObj [(''success'', JBool True), (''data'', response)]\<rparr>)"
  using H getPaprClient_cases [of "process_env rt"]
  by (auto simp: PUT_def PUT_try_def run_split get_prop_run Let_def split: if_splits sum.splits)

lemma searchParams_get_filter:
  "k \<noteq> m \<Longrightarrow>
   map_of (filter (\<lambda>kv. fst kv \<noteq> m) ps) k = map_of ps k"
  by (induction ps) auto

section \<open>The sample requests, run\<close>

lemmas sample_defs = alice_def rejecting_sdk_def accepting_sdk_def configured_def unconfigured_def
  sample_runtime_def sample_client_def spoofing_request_def hello_request_def search_request_def
  delete_request_def update_request_def empty_request_def garbled_request_def

lemmas handler_defs = POST_def POST_try_def GET_def GET_try_def DELETE_def DELETE_try_def
  PUT_def PUT_try_def ensure_customMetadata_def getPaprClient_def env_or_def startsWith_def
  searchParams_get_def no_session_def session_user_id_def get_prop_def nullish_def lookup_def
  default_to_def js_or_def memoryMetadata_of_def add_log_def Let_def

lemmas param_defs = spoofed_params_def hello_params_def tea_params_def cap_options_def
  bye_params_def search_request_100_def blank_request_def

lemma spoofing_trace:
  "Memory_add sample_client spoofed_params
     \<in> set (fst (POST (sample_runtime configured alice accepting_sdk) spoofing_request))"
  by (simp add: sample_defs handler_defs run spoofed_params_def)

lemma hello_trace:
  "Memory_add sample_client hello_params
     \<in> set (fst (POST (sample_runtime configured alice sdk) hello_request))"
  by (simp add: sample_defs handler_defs run param_defs)

lemma search_trace:
  "Memory_search sample_client tea_params cap_options
     \<in> set (fst (GET (sample_runtime configured alice sdk) search_request))"
  by (simp add: sample_defs handler_defs run param_defs)

lemma delete_trace:
  "Memory_delete sample_client (JStr ''m1'')
     \<in> set (fst (DELETE (sample_runtime configured alice sdk) delete_request))"
  by (simp add: sample_defs handler_defs run param_defs)

lemma update_trace:
  "Memory_update sample_client (JStr ''m1'') bye_params
     \<in> set (fst (PUT (sample_runtime configured alice sdk) update_request))"
  by (simp add: sample_defs handler_defs run param_defs)

section \<open>Properties of the memory route\<close>

text \<open>
  C1. Whatever the client puts into \<^verbatim>\<open>metadata\<close>, the parameter object of every
  \<^verbatim>\<open>client.memory.add\<close> call that Create performs carries the session's user id as
  \<^verbatim>\<open>metadata.user_id\<close> and \<^verbatim>\<open>metadata.external_user_id\<close>, and \<^verbatim>\<open>"memory_route"\<close> as
  \<^verbatim>\<open>metadata.customMetadata.api_source\<close>. The call is only reached with a valid session and
  a truthy \<^verbatim>\<open>content\<close>. The sample request asks for the user \<^verbatim>\<open>mallory\<close> and the source
  \<^verbatim>\<open>elsewhere\<close>.
\<close>

theorem create_forces_identity:
  assumes "auth rt = Inr session" and "Memory_add c p \<in> set (fst (POST rt req))"
  shows "lookup (lookup p ''metadata'') ''user_id'' = session_user_id session
       \<and> lookup (lookup p ''metadata'') ''external_user_id'' = session_user_id session
       \<and> lookup (lookup (lookup p ''metadata'') ''customMetadata'') ''api_source''
           = JStr ''memory_route''"
proof -
  from assms(2) obtain session' parsed metadata where
    a: "auth rt = Inr session'" and
    p: "p = JObj [(''content'', lookup parsed ''content''),
               (''type'', default_to (lookup parsed ''type'') (JStr ''text'')),
               (''metadata'', memoryMetadata_of session' (date_now_iso rt) metadata)]"
    by (rule POST_reaches_add)
  from a assms(1) have "session' = session" by simp
  with p show ?thesis
    by (simp add: lookup_def memoryMetadata_of_def update_conv')
qed

theorem create_forces_identity_witness:
  "Memory_add sample_client spoofed_params
     \<in> set (fst (POST (sample_runtime configured alice accepting_sdk) spoofing_request))
   \<and> lookup (lookup spoofed_params ''metadata'') ''user_id'' = JStr ''alice''
   \<and> lookup (lookup spoofed_params ''metadata'') ''external_user_id'' = JStr ''alice''
   \<and> lookup (lookup (lookup spoofed_params ''metadata'') ''customMetadata'') ''api_source''
       = JStr ''memory_route''"
proof -
  have a: "auth (sample_runtime configured alice accepting_sdk) = Inr alice"
    by (simp add: sample_runtime_def)
  have "session_user_id alice = JStr ''alice''"
    by (simp add: alice_def session_user_id_def lookup_def)
  with create_forces_identity [OF a spoofing_trace] spoofing_trace show ?thesis
    by simp
qed

text \<open>
  C2. In each of the four handlers, when the SDK operation that the handler invokes
  rejects, with any exception, the handler answers with status 500 and the body
  \<^verbatim>\<open>{ error: m }\<close>, where \<^verbatim>\<open>m\<close> is the fixed message of the operation. The body is this
  constant object: nothing of the exception reaches it.
\<close>

theorem remote_failure_gives_500:
  "(Memory_add ca pa \<in> set (fst (POST rt req)) \<and> memory_add (papr rt) ca pa = Inl ea
      \<longrightarrow> snd (POST rt req)
           = Inr \<lparr>status = 500, body = JObj [(''error'', JStr ''Failed to add memory'')]\<rparr>)
   \<and> (Memory_search cs ps os \<in> set (fst (GET rt req)) \<and> memory_search (papr rt) cs ps os = Inl es
      \<longrightarrow> snd (GET rt req)
           = Inr \<lparr>status = 500, body = JObj [(''error'', JStr ''Failed to search memories'')]\<rparr>)
   \<and> (Memory_delete cd idd \<in> set (fst (DELETE rt req)) \<and> memory_delete (papr rt) cd idd = Inl ed
      \<longrightarrow> snd (DELETE rt req)
           = Inr \<lparr>status = 500, body = JObj [(''error'', JStr ''Failed to delete memory'')]\<rparr>)
   \<and> (Memory_update cu iu pu \<in> set (fst (PUT rt req)) \<and> memory_update (papr rt) cu iu pu = Inl eu
      \<longrightarrow> snd (PUT rt req)
           = Inr \<lparr>status = 500, body = JObj [(''error'', JStr ''Failed to update memory'')]\<rparr>)"
proof (intro conjI impI)
  assume "Memory_add ca pa \<in> set (fst (POST rt req)) \<and> memory_add (papr rt) ca pa = Inl ea"
  then show "snd (POST rt req)
      = Inr \<lparr>status = 500, body = JObj [(''error'', JStr ''Failed to add memory'')]\<rparr>"
    by (elim conjE POST_reaches_add) simp
next
  assume "Memory_search cs ps os \<in> set (fst (GET rt req)) \<and> memory_search (papr rt) cs ps os = Inl es"
  then show "snd (GET rt req)
      = Inr \<lparr>status = 500, body = JObj [(''error'', JStr ''Failed to search memories'')]\<rparr>"
    by (elim conjE GET_reaches_search) simp
next
  assume "Memory_delete cd idd \<in> set (fst (DELETE rt req)) \<and> memory_delete (papr rt) cd idd = Inl ed"
  then show "snd (DELETE rt req)
      = Inr \<lparr>status = 500, body = JObj [(''error'', JStr ''Failed to delete memory'')]\<rparr>"
    by (elim conjE DELETE_reaches_delete) simp
next
  assume "Memory_update cu iu pu \<in> set (fst (PUT rt req)) \<and> memory_update (papr rt) cu iu pu = Inl eu"
  then show "snd (PUT rt req)
      = Inr \<lparr>status = 500, body = JObj [(''error'', JStr ''Failed to update memory'')]\<rparr>"
    by (elim conjE PUT_reaches_update) simp
qed

theorem remote_failure_gives_500_witness:
  "(Memory_add sample_client hello_params
      \<in> set (fst (POST (sample_runtime configured alice rejecting_sdk) hello_request))
    \<and> memory_add rejecting_sdk sample_client hello_params = Inl (Error ''429 quota exceeded'')
    \<and> snd (POST (sample_runtime configured alice rejecting_sdk) hello_request)
        = Inr \<lparr>status = 500, body = JObj [(''error'', JStr ''Failed to add memory'')]\<rparr>)
   \<and> (Memory_search sample_client tea_params cap_options
      \<in> set (fst (GET (sample_runtime configured alice rejecting_sdk) search_request))
    \<and> memory_search rejecting_sdk sample_client tea_params cap_options = Inl (Error ''429 quota exceeded'')
    \<and> snd (GET (sample_runtime configured alice rejecting_sdk) search_request)
        = Inr \<lparr>status = 500, body = JObj [(''error'', JStr ''Failed to search memories'')]\<rparr>)
   \<and> (Memory_delete sample_client (JStr ''m1'')
      \<in> set (fst (DELETE (sample_runtime configured alice rejecting_sdk) delete_request))
    \<and> memory_delete rejecting_sdk sample_client (JStr ''m1'') = Inl (Error ''404 no such memory'')
    \<and> snd (DELETE (sample_runtime configured alice rejecting_sdk) delete_request)
        = Inr \<lparr>status = 500, body = JObj [(''error'', JStr ''Failed to delete memory'')]\<rparr>)
   \<and> (Memory_update sample_client (JStr ''m1'') bye_params
      \<in> set (fst (PUT (sample_runtime configured alice rejecting_sdk) update_request))
    \<and> memory_update rejecting_sdk sample_client (JStr ''m1'') bye_params = Inl (Error ''404 no such memory'')
    \<and> snd (PUT (sample_runtime configured alice rejecting_sdk) update_request)
        = Inr \<lparr>status = 500, body = JObj [(''error'', JStr ''Failed to update memory'')]\<rparr>)"
proof -
  have sdk: "papr (sample_runtime configured alice rejecting_sdk) = rejecting_sdk"
    by (simp add: sample_runtime_def)
  have r: "memory_add rejecting_sdk sample_client hello_params = Inl (Error ''429 quota exceeded'')"
    "memory_search rejecting_sdk sample_client tea_params cap_options = Inl (Error ''429 quota exceeded'')"
    "memory_delete rejecting_sdk sample_client (JStr ''m1'') = Inl (Error ''404 no such memory'')"
    "memory_update rejecting_sdk sample_client (JStr ''m1'') bye_params = Inl (Error ''404 no such memory'')"
    by (simp_all add: rejecting_sdk_def)
  note T = remote_failure_gives_500 [where rt = "sample_runtime configured alice rejecting_sdk"]
  have A: "snd (POST (sample_runtime configured alice rejecting_sdk) hello_request)
        = Inr \<lparr>status = 500, body = JObj [(''error'', JStr ''Failed to add memory'')]\<rparr>"
    using T [where req = hello_request and ca = sample_client and pa = hello_params]
      r(1) hello_trace [of rejecting_sdk] by (simp add: sdk)
  have B: "snd (GET (sample_runtime configured alice rejecting_sdk) search_request)
        = Inr \<lparr>status = 500, body = JObj [(''error'', JStr ''Failed to search memories'')]\<rparr>"
    using T [where req = search_request and cs = sample_client and ps = tea_params and os = cap_options]
      r(2) search_trace [of rejecting_sdk] by (simp add: sdk)
  have C: "snd (DELETE (sample_runtime configured alice rejecting_sdk) delete_request)
        = Inr \<lparr>status = 500, body = JObj [(''error'', JStr ''Failed to delete memory'')]\<rparr>"
    using T [where req = delete_request and cd = sample_client and idd = "JStr ''m1''"]
      r(3) delete_trace [of rejecting_sdk] by (simp add: sdk)
  have D: "snd (PUT (sample_runtime configured alice rejecting_sdk) update_request)
        = Inr \<lparr>status = 500, body = JObj [(''error'', JStr ''Failed to update memory'')]\<rparr>"
    using T [where req = update_request and cu = sample_client and iu = "JStr ''m1''" and pu = bye_params]
      r(4) update_trace [of rejecting_sdk] by (simp add: sdk)
  show ?thesis
    using A B C D r hello_trace [of rejecting_sdk] search_trace [of rejecting_sdk]
      delete_trace [of rejecting_sdk] update_trace [of rejecting_sdk]
    by simp
qed

text \<open>
  C3. When \<^verbatim>\<open>auth()\<close> yields no session, or a session without a user or without a user
  id, each of the four handlers answers with status 401 and the body
  \<^verbatim>\<open>{ error: "Unauthorized" }\<close>, and its trace is empty: no client is constructed and no
  SDK operation is invoked.
\<close>

theorem no_session_gives_401:
  assumes "auth rt = Inr session" and "no_session session"
  shows "POST rt req = ([], Inr \<lparr>status = 401, body = JObj [(''error'', JStr ''Unauthorized'')]\<rparr>)
       \<and> GET rt req = ([], Inr \<lparr>status = 401, body = JObj [(''error'', JStr ''Unauthorized'')]\<rparr>)
       \<and> DELETE rt req = ([], Inr \<lparr>status = 401, body = JObj [(''error'', JStr ''Unauthorized'')]\<rparr>)
       \<and> PUT rt req = ([], Inr \<lparr>status = 401, body = JObj [(''error'', JStr ''Unauthorized'')]\<rparr>)"
  using assms
  by (simp add: POST_def POST_try_def GET_def GET_try_def DELETE_def DELETE_try_def
      PUT_def PUT_try_def run)

theorem no_session_gives_401_witness:
  "no_session JNull \<and> no_session anonymous_user
   \<and> POST (sample_runtime configured JNull accepting_sdk) hello_request
       = ([], Inr \<lparr>status = 401, body = JObj [(''error'', JStr ''Unauthorized'')]\<rparr>)
   \<and> GET (sample_runtime configured JNull accepting_sdk) search_request
       = ([], Inr \<lparr>status = 401, body = JObj [(''error'', JStr ''Unauthorized'')]\<rparr>)
   \<and> DELETE (sample_runtime configured anonymous_user accepting_sdk) delete_request
       = ([], Inr \<lparr>status = 401, body = JObj [(''error'', JStr ''Unauthorized'')]\<rparr>)
   \<and> PUT (sample_runtime configured anonymous_user accepting_sdk) update_request
       = ([], Inr \<lparr>status = 401, body = JObj [(''error'', JStr ''Unauthorized'')]\<rparr>)"
proof -
  have n: "no_session JNull" "no_session anonymous_user"
    by (simp_all add: no_session_def anonymous_user_def lookup_def)
  have a: "auth (sample_runtime configured s accepting_sdk) = Inr s" for s
    by (simp add: sample_runtime_def)
  from no_session_gives_401 [OF a n(1), of hello_request]
    no_session_gives_401 [OF a n(1), of search_request]
    no_session_gives_401 [OF a n(2), of delete_request]
    no_session_gives_401 [OF a n(2), of update_request] n
  show ?thesis by simp
qed

text \<open>
  C4. Every \<^verbatim>\<open>client.memory.search\<close> call of Search is made with the options
  \<^verbatim>\<open>{ query: { max_memories: 25 } }\<close>; and two requests whose query parameters agree once
  the \<^verbatim>\<open>max_memories\<close> parameters are removed have the same trace and the same answer.
\<close>

theorem search_cap_is_25:
  "(Memory_search c p opts \<in> set (fst (GET rt req))
      \<longrightarrow> opts = JObj [(''query'', JObj [(''max_memories'', JNum 25)])])
   \<and> (filter (\<lambda>kv. fst kv \<noteq> ''max_memories'') (searchParams req)
        = filter (\<lambda>kv. fst kv \<noteq> ''max_memories'') (searchParams req')
      \<longrightarrow> GET rt req = GET rt req')"
proof (intro conjI impI)
  assume "Memory_search c p opts \<in> set (fst (GET rt req))"
  then show "opts = JObj [(''query'', JObj [(''max_memories'', JNum 25)])]"
    by (rule GET_reaches_search)
next
  assume same: "filter (\<lambda>kv. fst kv \<noteq> ''max_memories'') (searchParams req)
        = filter (\<lambda>kv. fst kv \<noteq> ''max_memories'') (searchParams req')"
  have "map_of (searchParams req) ''query'' = map_of (searchParams req') ''query''"
    using searchParams_get_filter [of "''query''" "''max_memories''" "searchParams req"]
      searchParams_get_filter [of "''query''" "''max_memories''" "searchParams req'"] same
    by simp
  then have q: "searchParams_get req ''query'' = searchParams_get req' ''query''"
    by (simp add: searchParams_get_def)
  have "GET_try rt req = GET_try rt req'"
    unfolding GET_try_def Let_def q by (rule refl)
  then show "GET rt req = GET rt req'"
    by (simp add: GET_def)
qed

theorem search_cap_is_25_witness:
  "Memory_search sample_client tea_params cap_options
     \<in> set (fst (GET (sample_runtime configured alice accepting_sdk) search_request))
   \<and> cap_options = JObj [(''query'', JObj [(''max_memories'', JNum 25)])]
   \<and> filter (\<lambda>kv. fst kv \<noteq> ''max_memories'') (searchParams search_request)
       = filter (\<lambda>kv. fst kv \<noteq> ''max_memories'') (searchParams search_request_100)
   \<and> GET (sample_runtime configured alice accepting_sdk) search_request
       = GET (sample_runtime configured alice accepting_sdk) search_request_100"
proof -
  have f: "filter (\<lambda>kv. fst kv \<noteq> ''max_memories'') (searchParams search_request)
       = filter (\<lambda>kv. fst kv \<noteq> ''max_memories'') (searchParams search_request_100)"
    by (simp add: search_request_def search_request_100_def)
  from search_cap_is_25 [of sample_client tea_params cap_options
      "sample_runtime configured alice accepting_sdk" search_request search_request_100]
    search_trace [of accepting_sdk] f
  show ?thesis by simp
qed

text \<open>
  C5, as amended. When \<^verbatim>\<open>PAPR_MEMORY_API_KEY\<close> is absent or empty, \<^verbatim>\<open>getPaprClient\<close> throws
  \<^verbatim>\<open>Error('PAPR_MEMORY_API_KEY is not defined')\<close>. Every handler calls it inside its
  \<^verbatim>\<open>try\<close> block, so the failure is caught: a request that passes authentication and
  validation is answered with status 500 and the generic message of the operation, the
  error is logged, and no SDK operation is invoked.
\<close>

theorem missing_api_key_gives_500:
  assumes "PAPR_MEMORY_API_KEY (process_env rt) = None \<or> PAPR_MEMORY_API_KEY (process_env rt) = Some []"
    and "auth rt = Inr session" and "\<not> no_session session"
  shows "getPaprClient (process_env rt) = ([], Inl (Error ''PAPR_MEMORY_API_KEY is not defined''))
   \<and> (json req = Inr parsed \<and> truthy (lookup parsed ''content'')
      \<longrightarrow> POST rt req
          = ([Console_error ''Error adding memory:'' (Error ''PAPR_MEMORY_API_KEY is not defined'')],
             Inr \<lparr>status = 500, body = JObj [(''error'', JStr ''Failed to add memory'')]\<rparr>))
   \<and> (truthy (searchParams_get req ''query'')
      \<longrightarrow> GET rt req
          = ([Console_error ''Error searching memories:'' (Error ''PAPR_MEMORY_API_KEY is not defined'')],
             Inr \<lparr>status = 500, body = JObj [(''error'', JStr ''Failed to search memories'')]\<rparr>))
   \<and> (truthy (searchParams_get req ''id'')
      \<longrightarrow> DELETE rt req
          = ([Console_error ''Error deleting memory:'' (Error ''PAPR_MEMORY_API_KEY is not defined'')],
             Inr \<lparr>status = 500, body = JObj [(''error'', JStr ''Failed to delete memory'')]\<rparr>))
   \<and> (json req = Inr parsed \<and> truthy (lookup parsed ''memory_id'')
      \<longrightarrow> PUT rt req
          = ([Console_error ''Error updating memory:'' (Error ''PAPR_MEMORY_API_KEY is not defined'')],
             Inr \<lparr>status = 500, body = JObj [(''error'', JStr ''Failed to update memory'')]\<rparr>))"
proof -
  have client: "getPaprClient (process_env rt) = ([], Inl (Error ''PAPR_MEMORY_API_KEY is not defined''))"
    using assms(1) by (auto simp: getPaprClient_def run)
  have notnull: "\<not> nullish parsed" if "truthy (lookup parsed k)" for k
    using that lookup_nullish [of parsed k] by auto
  have post: "POST rt req
      = ([Console_error ''Error adding memory:'' (Error ''PAPR_MEMORY_API_KEY is not defined'')],
         Inr \<lparr>status = 500, body = JObj [(''error'', JStr ''Failed to add memory'')]\<rparr>)"
    if "json req = Inr parsed" "truthy (lookup parsed ''content'')"
    using that assms(2,3) client notnull [of "''content''"]
    by (simp add: POST_def POST_try_def run get_prop_run Let_def)
  have get: "GET rt req
      = ([Console_error ''Error searching memories:'' (Error ''PAPR_MEMORY_API_KEY is not defined'')],
         Inr \<lparr>status = 500, body = JObj [(''error'', JStr ''Failed to search memories'')]\<rparr>)"
    if "truthy (searchParams_get req ''query'')"
    using that assms(2,3) client
    by (simp add: GET_def GET_try_def run Let_def)
  have delete: "DELETE rt req
      = ([Console_error ''Error deleting memory:'' (Error ''PAPR_MEMORY_API_KEY is not defined'')],
         Inr \<lparr>status = 500, body = JObj [(''error'', JStr ''Failed to delete memory'')]\<rparr>)"
    if "truthy (searchParams_get req ''id'')"
    using that assms(2,3) client
    by (simp add: DELETE_def DELETE_try_def run Let_def)
  have put: "PUT rt req
      = ([Console_error ''Error updating memory:'' (Error ''PAPR_MEMORY_API_KEY is not defined'')],
         Inr \<lparr>status = 500, body = JObj [(''error'', JStr ''Failed to update memory'')]\<rparr>)"
    if "json req = Inr parsed" "truthy (lookup parsed ''memory_id'')"
    using that assms(2,3) client notnull [of "''memory_id''"]
    by (simp add: PUT_def PUT_try_def run get_prop_run Let_def)
  from client post get delete put show ?thesis by blast
qed

theorem missing_api_key_gives_500_witness:
  "getPaprClient unconfigured = ([], Inl (Error ''PAPR_MEMORY_API_KEY is not defined''))
   \<and> POST (sample_runtime unconfigured alice accepting_sdk) hello_request
       = ([Console_error ''Error adding memory:'' (Error ''PAPR_MEMORY_API_KEY is not defined'')],
          Inr \<lparr>status = 500, body = JObj [(''error'', JStr ''Failed to add memory'')]\<rparr>)
   \<and> GET (sample_runtime unconfigured alice accepting_sdk) search_request
       = ([Console_error ''Error searching memories:'' (Error ''PAPR_MEMORY_API_KEY is not defined'')],
          Inr \<lparr>status = 500, body = JObj [(''error'', JStr ''Failed to search memories'')]\<rparr>)
   \<and> DELETE (sample_runtime unconfigured alice accepting_sdk) delete_request
       = ([Console_error ''Error deleting memory:'' (Error ''PAPR_MEMORY_API_KEY is not defined'')],
          Inr \<lparr>status = 500, body = JObj [(''error'', JStr ''Failed to delete memory'')]\<rparr>)
   \<and> PUT (sample_runtime unconfigured alice accepting_sdk) update_request
       = ([Console_error ''Error updating memory:'' (Error ''PAPR_MEMORY_API_KEY is not defined'')],
          Inr \<lparr>status = 500, body = JObj [(''error'', JStr ''Failed to update memory'')]\<rparr>)"
proof -
  have e: "process_env (sample_runtime unconfigured alice accepting_sdk) = unconfigured"
    by (simp add: sample_runtime_def)
  have k: "PAPR_MEMORY_API_KEY (process_env (sample_runtime unconfigured alice accepting_sdk)) = None
     \<or> PAPR_MEMORY_API_KEY (process_env (sample_runtime unconfigured alice accepting_sdk)) = Some []"
    by (simp add: sample_runtime_def unconfigured_def)
  have a: "auth (sample_runtime unconfigured alice accepting_sdk) = Inr alice"
    by (simp add: sample_runtime_def)
  have s: "\<not> no_session alice"
    by (simp add: no_session_def alice_def lookup_def)
  note T = missing_api_key_gives_500 [OF k a s]
  have h: "json hello_request = Inr (JObj [(''content'', JStr ''hello'')])"
    "truthy (lookup (JObj [(''content'', JStr ''hello'')]) ''content'')"
    by (simp_all add: hello_request_def lookup_def)
  have q: "truthy (searchParams_get search_request ''query'')"
    by (simp add: search_request_def searchParams_get_def)
  have d: "truthy (searchParams_get delete_request ''id'')"
    by (simp add: delete_request_def searchParams_get_def)
  have u: "json update_request = Inr (JObj [(''memory_id'', JStr ''m1''), (''content'', JStr ''bye'')])"
    "truthy (lookup (JObj [(''memory_id'', JStr ''m1''), (''content'', JStr ''bye'')]) ''memory_id'')"
    by (simp_all add: update_request_def lookup_def)
  from T [of hello_request "JObj [(''content'', JStr ''hello'')]"] T [of search_request]
    T [of delete_request]
    T [of update_request "JObj [(''memory_id'', JStr ''m1''), (''content'', JStr ''bye'')]"]
    h q d u
  show ?thesis by (simp add: e)
qed

text \<open>
  C5, as stated, says that the missing key surfaces as an unhandled failure and not as a
  handled HTTP response. With no key, a valid session and the body
  \<^verbatim>\<open>{ "content": "hello" }\<close>, Create returns a response, with status 500.
\<close>

theorem missing_api_key_unhandled_counterexample:
  "PAPR_MEMORY_API_KEY (process_env (sample_runtime unconfigured alice accepting_sdk)) = None
   \<and> \<not> isl (snd (POST (sample_runtime unconfigured alice accepting_sdk) hello_request))
   \<and> POST (sample_runtime unconfigured alice accepting_sdk) hello_request
       = ([Console_error ''Error adding memory:'' (Error ''PAPR_MEMORY_API_KEY is not defined'')],
          Inr \<lparr>status = 500, body = JObj [(''error'', JStr ''Failed to add memory'')]\<rparr>)"
  by (simp add: sample_defs handler_defs run)

text \<open>
  C6, as amended. With a valid session and a JSON body other than the literal \<^verbatim>\<open>null\<close>
  whose \<^verbatim>\<open>content\<close> is absent or falsy (the empty string among others), Create answers
  with status 400 and the body \<^verbatim>\<open>{ error: "Content is required" }\<close>, and its trace is
  empty: no client is constructed and no SDK operation is invoked.
\<close>

theorem empty_content_gives_400:
  assumes "auth rt = Inr session" and "\<not> no_session session"
    and "json req = Inr parsed" and "\<not> nullish parsed"
    and "\<not> truthy (lookup parsed ''content'')"
  shows "POST rt req
    = ([], Inr \<lparr>status = 400, body = JObj [(''error'', JStr ''Content is required'')]\<rparr>)"
  using assms by (simp add: POST_def POST_try_def run get_prop_run Let_def)

theorem empty_content_gives_400_witness:
  "POST (sample_runtime configured alice accepting_sdk) empty_request
     = ([], Inr \<lparr>status = 400, body = JObj [(''error'', JStr ''Content is required'')]\<rparr>)
   \<and> POST (sample_runtime configured alice accepting_sdk) blank_request
     = ([], Inr \<lparr>status = 400, body = JObj [(''error'', JStr ''Content is required'')]\<rparr>)"
proof -
  have a: "auth (sample_runtime configured alice accepting_sdk) = Inr alice"
    by (simp add: sample_runtime_def)
  have s: "\<not> no_session alice"
    by (simp add: no_session_def alice_def lookup_def)
  have e: "json empty_request = Inr (JObj [])" "\<not> nullish (JObj [])"
    "\<not> truthy (lookup (JObj []) ''content'')"
    by (simp_all add: empty_request_def nullish_def lookup_def)
  have b: "json blank_request = Inr (JObj [(''content'', JStr [])])"
    "\<not> nullish (JObj [(''content'', JStr [])])"
    "\<not> truthy (lookup (JObj [(''content'', JStr [])]) ''content'')"
    by (simp_all add: blank_request_def nullish_def lookup_def)
  from empty_content_gives_400 [OF a s e] empty_content_gives_400 [OF a s b]
  show ?thesis by simp
qed

text \<open>
  C6, as stated, covers every JSON body without a \<^verbatim>\<open>content\<close>. The body \<^verbatim>\<open>null\<close> has
  none, and the destructuring at line 30 throws on it inside the \<^verbatim>\<open>try\<close> block: Create
  answers with status 500 and its generic message, not with status 400.
\<close>

theorem null_body_create_counterexample:
  "json null_request = Inr JNull
   \<and> snd (POST (sample_runtime configured alice accepting_sdk) null_request)
       = Inr \<lparr>status = 500, body = JObj [(''error'', JStr ''Failed to add memory'')]\<rparr>
   \<and> snd (POST (sample_runtime configured alice accepting_sdk) null_request)
       \<noteq> Inr \<lparr>status = 400, body = JObj [(''error'', JStr ''Content is required'')]\<rparr>"
  by (simp add: sample_defs handler_defs run null_request_def)

text \<open>
  C7, as amended. With a valid session, Delete without a non-empty \<^verbatim>\<open>id\<close> query
  parameter, and Update with a JSON body other than the literal \<^verbatim>\<open>null\<close> whose
  \<^verbatim>\<open>memory_id\<close> is absent or falsy, answer with status 400 and the body
  \<^verbatim>\<open>{ error: "Memory ID is required" }\<close>, and their traces are empty: no client is
  constructed and no SDK operation is invoked.
\<close>

theorem missing_memory_id_gives_400:
  assumes "auth rt = Inr session" and "\<not> no_session session"
  shows "(\<not> truthy (searchParams_get req ''id'')
      \<longrightarrow> DELETE rt req
          = ([], Inr \<lparr>status = 400, body = JObj [(''error'', JStr ''Memory ID is required'')]\<rparr>))
   \<and> (json req = Inr parsed \<and> \<not> nullish parsed \<and> \<not> truthy (lookup parsed ''memory_id'')
      \<longrightarrow> PUT rt req
          = ([], Inr \<lparr>status = 400, body = JObj [(''error'', JStr ''Memory ID is required'')]\<rparr>))"
  using assms
  by (simp add: DELETE_def DELETE_try_def PUT_def PUT_try_def run get_prop_run Let_def)

theorem missing_memory_id_gives_400_witness:
  "map_of (searchParams empty_request) ''id'' = None
   \<and> DELETE (sample_runtime configured alice accepting_sdk) empty_request
       = ([], Inr \<lparr>status = 400, body = JObj [(''error'', JStr ''Memory ID is required'')]\<rparr>)
   \<and> json hello_request = Inr (JObj [(''content'', JStr ''hello'')])
   \<and> PUT (sample_runtime configured alice accepting_sdk) hello_request
       = ([], Inr \<lparr>status = 400, body = JObj [(''error'', JStr ''Memory ID is required'')]\<rparr>)"
proof -
  have a: "auth (sample_runtime configured alice accepting_sdk) = Inr alice"
    by (simp add: sample_runtime_def)
  have s: "\<not> no_session alice"
    by (simp add: no_session_def alice_def lookup_def)
  have d: "map_of (searchParams empty_request) ''id'' = None"
    "\<not> truthy (searchParams_get empty_request ''id'')"
    by (simp_all add: empty_request_def searchParams_get_def)
  have u: "json hello_request = Inr (JObj [(''content'', JStr ''hello'')])"
    "\<not> nullish (JObj [(''content'', JStr ''hello'')])"
    "\<not> truthy (lookup (JObj [(''content'', JStr ''hello'')]) ''memory_id'')"
    by (simp_all add: hello_request_def nullish_def lookup_def)
  from missing_memory_id_gives_400 [OF a s, of empty_request]
    missing_memory_id_gives_400 [OF a s, of hello_request "JObj [(''content'', JStr ''hello'')]"] d u
  show ?thesis by simp
qed

text \<open>
  C7, as stated, covers every Update body without a \<^verbatim>\<open>memory_id\<close>. The body \<^verbatim>\<open>null\<close>
  has none, and the destructuring at line 181 throws on it inside the \<^verbatim>\<open>try\<close> block:
  Update answers with status 500 and its generic message, not with status 400.
\<close>

theorem null_body_update_counterexample:
  "json null_request = Inr JNull
   \<and> snd (PUT (sample_runtime configured alice accepting_sdk) null_request)
       = Inr \<lparr>status = 500, body = JObj [(''error'', JStr ''Failed to update memory'')]\<rparr>
   \<and> snd (PUT (sample_runtime configured alice accepting_sdk) null_request)
       \<noteq> Inr \<lparr>status = 400, body = JObj [(''error'', JStr ''Memory ID is required'')]\<rparr>"
  by (simp add: sample_defs handler_defs run null_request_def)

text \<open>
  C8. The parameter object of every \<^verbatim>\<open>client.memory.add\<close> call of Create has, as
  \<^verbatim>\<open>metadata.topics\<close>, the list of strings that the request gave there, the same elements
  in the same order; and the empty list when the request gave no \<^verbatim>\<open>metadata.topics\<close>.
\<close>

theorem create_keeps_topics:
  assumes "json req = Inr parsed" and "Memory_add c p \<in> set (fst (POST rt req))"
  shows "(lookup (lookup parsed ''metadata'') ''topics'' = JArr (map JStr ts) []
      \<longrightarrow> lookup (lookup p ''metadata'') ''topics'' = JArr (map JStr ts) [])
   \<and> (lookup (lookup parsed ''metadata'') ''topics'' = JUndefined
      \<longrightarrow> lookup (lookup p ''metadata'') ''topics'' = JArr [] [])"
proof -
  from assms(2) obtain session parsed' metadata where
    j: "json req = Inr parsed'" and
    k: "\<forall>k. k \<noteq> ''customMetadata'' \<longrightarrow> lookup metadata k = lookup (lookup parsed' ''metadata'') k" and
    p: "p = JObj [(''content'', lookup parsed' ''content''),
               (''type'', default_to (lookup parsed' ''type'') (JStr ''text'')),
               (''metadata'', memoryMetadata_of session (date_now_iso rt) metadata)]"
    by (rule POST_reaches_add)
  from j assms(1) have same: "parsed' = parsed" by simp
  from k same have t: "lookup metadata ''topics'' = lookup (lookup parsed ''metadata'') ''topics''"
    by simp
  have "lookup (lookup p ''metadata'') ''topics'' = js_or (lookup metadata ''topics'') (JArr [] [])"
    unfolding p by (simp add: lookup_def memoryMetadata_of_def)
  with t show ?thesis by (simp add: js_or_def)
qed

theorem create_keeps_topics_witness:
  "Memory_add sample_client spoofed_params
     \<in> set (fst (POST (sample_runtime configured alice accepting_sdk) spoofing_request))
   \<and> lookup (lookup spoofed_params ''metadata'') ''topics'' = JArr [JStr ''a'', JStr ''b''] []
   \<and> Memory_add sample_client hello_params
     \<in> set (fst (POST (sample_runtime configured alice accepting_sdk) hello_request))
   \<and> lookup (lookup hello_params ''metadata'') ''topics'' = JArr [] []"
proof -
  have s: "json spoofing_request = Inr (JObj
        [(''content'', JStr ''hello''),
         (''metadata'', JObj
            [(''user_id'', JStr ''mallory''),
             (''external_user_id'', JStr ''mallory''),
             (''topics'', JArr [JStr ''a'', JStr ''b''] []),
             (''customMetadata'', JObj [(''api_source'', JStr ''elsewhere'')])])])"
    by (simp add: spoofing_request_def)
  have h: "json hello_request = Inr (JObj [(''content'', JStr ''hello'')])"
    by (simp add: hello_request_def)
  from create_keeps_topics [OF s spoofing_trace, of "[''a'', ''b'']"]
    create_keeps_topics [OF h hello_trace [of accepting_sdk]]
    spoofing_trace hello_trace [of accepting_sdk]
  show ?thesis by (simp add: lookup_def)
qed

text \<open>
  C9. With a valid session, when \<^verbatim>\<open>request.json()\<close> rejects because the body is not JSON,
  Create and Update answer with status 500 and their generic message; the exception is
  logged and nothing else happens.
\<close>

theorem unparseable_body_gives_500:
  assumes "auth rt = Inr session" and "\<not> no_session session" and "json req = Inl e"
  shows "POST rt req
      = ([Console_error ''Error adding memory:'' e],
         Inr \<lparr>status = 500, body = JObj [(''error'', JStr ''Failed to add memory'')]\<rparr>)
   \<and> PUT rt req
      = ([Console_error ''Error updating memory:'' e],
         Inr \<lparr>status = 500, body = JObj [(''error'', JStr ''Failed to update memory'')]\<rparr>)"
  using assms by (simp add: POST_def POST_try_def PUT_def PUT_try_def run)

theorem unparseable_body_gives_500_witness:
  "POST (sample_runtime configured alice accepting_sdk) garbled_request
      = ([Console_error ''Error adding memory:'' (SyntaxError ''Unexpected token'')],
         Inr \<lparr>status = 500, body = JObj [(''error'', JStr ''Failed to add memory'')]\<rparr>)
   \<and> PUT (sample_runtime configured alice accepting_sdk) garbled_request
      = ([Console_error ''Error updating memory:'' (SyntaxError ''Unexpected token'')],
         Inr \<lparr>status = 500, body = JObj [(''error'', JStr ''Failed to update memory'')]\<rparr>)"
proof -
  have a: "auth (sample_runtime configured alice accepting_sdk) = Inr alice"
    by (simp add: sample_runtime_def)
  have s: "\<not> no_session alice"
    by (simp add: no_session_def alice_def lookup_def)
  have g: "json garbled_request = Inl (SyntaxError ''Unexpected token'')"
    by (simp add: garbled_request_def)
  from unparseable_body_gives_500 [OF a s g] show ?thesis .
qed

section \<open>Properties of the copy action\<close>

text \<open>
  C10. Whatever the browser does, the events of one click start with those of
  \<^verbatim>\<open>onClick\<close>, which contain the success toast and no clipboard write: the toast comes
  before any clipboard write. When the image does not load, or \<^verbatim>\<open>toBlob\<close> yields no blob,
  the toast is shown and nothing is written to the clipboard.
\<close>

theorem copy_toast_unconditional:
  "(\<exists>later. copy_action b content = onClick content @ later)
   \<and> Toast_success ''Copied image to clipboard!'' \<in> set (onClick content)
   \<and> (\<forall>png. Clipboard_write png \<notin> set (onClick content))
   \<and> (image_loads b = None \<or> blob b = None
      \<longrightarrow> Toast_success ''Copied image to clipboard!'' \<in> set (copy_action b content)
          \<and> (\<forall>png. Clipboard_write png \<notin> set (copy_action b content)))"
  by (auto simp: copy_action_def onClick_def img_onload_def toBlob_callback_def
      split: option.splits)

theorem copy_toast_unconditional_witness:
  "image_loads broken_image = None
   \<and> Toast_success ''Copied image to clipboard!'' \<in> set (copy_action broken_image ''AAAA'')
   \<and> (\<forall>png. Clipboard_write png \<notin> set (copy_action broken_image ''AAAA''))
   \<and> blob no_blob = None
   \<and> Toast_success ''Copied image to clipboard!'' \<in> set (copy_action no_blob ''AAAA'')
   \<and> (\<forall>png. Clipboard_write png \<notin> set (copy_action no_blob ''AAAA''))"
proof -
  have b: "image_loads broken_image = None" "blob no_blob = None"
    by (simp_all add: broken_image_def no_blob_def)
  from copy_toast_unconditional [of broken_image "''AAAA''"]
    copy_toast_unconditional [of no_blob "''AAAA''"] b
  show ?thesis by simp
qed

end
